theory Spec2Isabelle
  imports Main "HOL-Library.Word" "HOL-Library.AList"
begin

unbundle bit_operations_syntax

section \<open>cmdr.py: the MDM command generator\<close>

text \<open>
  A shallow embedding of \<^verbatim>\<open>tools/cmdr.py\<close>. The script parses its command line with
  argparse, builds one command body (a Python dict), wraps it in an envelope with a
  command UUID and hands the envelope to \<^verbatim>\<open>plistlib.dump\<close>.
\<close>

subsection \<open>Values\<close>

text \<open>
  The Python values that end up in the dictionaries: \<^verbatim>\<open>None\<close>, \<^verbatim>\<open>str\<close>,
  \<^verbatim>\<open>plistlib.Data\<close> (a wrapper around \<^verbatim>\<open>bytes\<close>), a list and a dict. A dict is an
  association list in insertion order; a dict display \<^verbatim>\<open>{k1: v1, k2: v2}\<close> is the list
  \<open>[(k1, v1), (k2, v2)]\<close> and the assignment \<^verbatim>\<open>d[k] = v\<close> is \<open>AList.update k v d\<close>
  (replace in place, or append).
\<close>

datatype plist =
    PNone
  | PStr string
  | PData "8 word list"
  | PArray "plist list"
  | PDict "(string \<times> plist) list"

fun keys :: "plist \<Rightarrow> string list" where
  "keys (PDict kvs) = map fst kvs"
| "keys _ = []"

fun getitem :: "plist \<Rightarrow> string \<Rightarrow> plist option" where
  "getitem (PDict kvs) k = map_of kvs k"
| "getitem _ k = None"

text \<open>
  A binary file object: its bytes and the read position. \<^verbatim>\<open>read()\<close> returns everything
  from the position to the end and leaves the position at the end.
\<close>

record fobj =
  data :: "8 word list"
  pos :: nat

definition open_rb :: "8 word list \<Rightarrow> fobj" where
  "open_rb bs = \<lparr>data = bs, pos = 0\<rparr>"

definition read :: "fobj \<Rightarrow> 8 word list \<times> fobj" where
  "read f = (drop (pos f) (data f), f\<lparr>pos := max (pos f) (length (data f))\<rparr>)"

datatype error = AttributeError string | IndexError

subsection \<open>The environment of a run\<close>

text \<open>
  What a run reads from outside: the 16 random bytes behind \<^verbatim>\<open>uuid.uuid4()\<close>, the state
  of the generator behind \<^verbatim>\<open>random.choice\<close>, the readable files (path and contents), the
  bytes on standard input, and whether the interpreter's \<^verbatim>\<open>plistlib\<close> module has the
  attribute \<^verbatim>\<open>Data\<close>. The class \<^verbatim>\<open>plistlib.Data\<close> exists up to Python 3.8 and was
  removed in Python 3.9; the script is started with \<^verbatim>\<open>python3\<close>, whatever its version.
\<close>

record env =
  urandom :: "128 word"
  rand :: nat
  files :: "(string \<times> 8 word list) list"
  stdin :: "8 word list"
  plistlib_Data :: bool

subsection \<open>The parsed arguments\<close>

text \<open>
  The function stored by \<^verbatim>\<open>set_defaults(func=...)\<close>. \<^verbatim>\<open>simple_command(request_type)\<close>
  returns a closure over \<^verbatim>\<open>request_type\<close>; the closure is the constructor
  \<open>simple_command\<close> with the captured value (\<open>None\<close> for Python's \<^verbatim>\<open>None\<close>).
\<close>

datatype builder =
    simple_command "string option"
  | Install_profile
  | Remove_profile
  | Dev_info

text \<open>
  The \<^verbatim>\<open>argparse.Namespace\<close>. \<open>uuid\<close> and \<open>random\<close> are always set by the top-level
  parser; every other attribute exists only when the chosen subparser sets it, so it is an
  option and \<^verbatim>\<open>hasattr(args, "x")\<close> is \<open>x args \<noteq> None\<close>.
\<close>

record args =
  uuid :: string
  random :: bool
  func :: "builder option"
  request_type :: "string option"
  query :: "string list option"
  mobileconfig :: "fobj option"
  identifier' :: "string option"

subsection \<open>The command builders\<close>

text \<open>
  \<^verbatim>\<open>simple_command_body\<close>: the captured \<^verbatim>\<open>request_type\<close> is \<^verbatim>\<open>nonlocal\<close> and may be
  assigned, so the function returns the new captured value next to the body.
\<close>

definition simple_command_body :: "string option \<Rightarrow> args \<Rightarrow> string option \<times> plist" where
  "simple_command_body rt a =
     (let rt' = (if rt = None \<and> request_type a \<noteq> None then request_type a else rt)
      in (rt', PDict [(''RequestType'', case rt' of None \<Rightarrow> PNone | Some s \<Rightarrow> PStr s)]))"

text \<open>
  \<^verbatim>\<open>install_profile\<close> evaluates \<^verbatim>\<open>plistlib.Data\<close> before its argument: where the module
  has no such attribute the lookup raises AttributeError, whatever the arguments are.
\<close>

definition install_profile :: "env \<Rightarrow> args \<Rightarrow> error + plist" where
  "install_profile e a =
     (if \<not> plistlib_Data e then Inl (AttributeError ''Data'')
      else case mobileconfig a of
             None \<Rightarrow> Inl (AttributeError ''mobileconfig'')
           | Some f \<Rightarrow>
               Inr (PDict [(''RequestType'', PStr ''InstallProfile''),
                           (''Payload'', PData (fst (read f)))]))"

definition remove_profile :: "args \<Rightarrow> error + plist" where
  "remove_profile a =
     (case identifier' a of
        None \<Rightarrow> Inl (AttributeError ''identifier'')
      | Some i \<Rightarrow>
          Inr (PDict [(''RequestType'', PStr ''RemoveProfile''),
                      (''Identifier'', PStr i)]))"

definition dev_info :: "args \<Rightarrow> error + plist" where
  "dev_info a =
     (let c = [(''RequestType'', PStr ''DeviceInformation'')]
      in case query a of
           None \<Rightarrow> Inr (PDict c)
         | Some q \<Rightarrow>
             if q \<noteq> [] then Inr (PDict (AList.update ''Queries'' (PArray (map PStr q)) c))
             else Inr (PDict c))"

text \<open>\<^verbatim>\<open>args.func(args)\<close>, in the environment of the run.\<close>

fun call :: "env \<Rightarrow> builder \<Rightarrow> args \<Rightarrow> error + plist" where
  "call e (simple_command rt) a = Inr (snd (simple_command_body rt a))"
| "call e Install_profile a = install_profile e a"
| "call e Remove_profile a = remove_profile a"
| "call e Dev_info a = dev_info a"

subsection \<open>The generated UUID\<close>

text \<open>
  \<^verbatim>\<open>str(uuid.uuid4())\<close> of the Python standard library, as a function of the 16 random
  bytes it draws (read as one 128-bit number): \<^verbatim>\<open>UUID(bytes=..., version=4)\<close> forces the
  variant and version bits, and \<^verbatim>\<open>__str__\<close> formats the number with \<^verbatim>\<open>'%032x'\<close> and
  cuts it into groups of 8, 4, 4, 4 and 12 digits joined by hyphens.
\<close>

definition uuid4 :: "128 word \<Rightarrow> 128 word" where
  "uuid4 r =
     (let i = r AND NOT (push_bit 48 0xc000);
          i = i OR push_bit 48 0x8000;
          i = i AND NOT (push_bit 64 0xf000);
          i = i OR push_bit 76 4
      in i)"

definition hexdigit :: "nat \<Rightarrow> char" where
  "hexdigit n = ''0123456789abcdef'' ! (n mod 16)"

fun hex :: "nat \<Rightarrow> string" where
  "hex n = (if n < 16 then [hexdigit n] else hex (n div 16) @ [hexdigit (n mod 16)])"

declare hex.simps [simp del]

definition format_032x :: "nat \<Rightarrow> string" where
  "format_032x n = replicate (32 - length (hex n)) (CHR ''0'') @ hex n"

definition uuid_str :: "128 word \<Rightarrow> string" where
  "uuid_str u =
     (let h = format_032x (unat u)
      in take 8 h @ ''-'' @ take 4 (drop 8 h) @ ''-'' @ take 4 (drop 12 h) @ ''-'' @
         take 4 (drop 16 h) @ ''-'' @ drop 20 h)"

text \<open>
  What the specification calls a syntactically valid UUID string: the textual form
  8-4-4-4-12 of hexadecimal digits (either case) separated by hyphens.
\<close>

definition is_hex :: "char \<Rightarrow> bool" where
  "is_hex c = (c \<in> set ''0123456789abcdefABCDEF'')"

definition is_uuid :: "string \<Rightarrow> bool" where
  "is_uuid s =
     (length s = 36 \<and>
      list_all is_hex (take 8 s) \<and> s ! 8 = CHR ''-'' \<and>
      list_all is_hex (take 4 (drop 9 s)) \<and> s ! 13 = CHR ''-'' \<and>
      list_all is_hex (take 4 (drop 14 s)) \<and> s ! 18 = CHR ''-'' \<and>
      list_all is_hex (take 4 (drop 19 s)) \<and> s ! 23 = CHR ''-'' \<and>
      list_all is_hex (drop 24 s))"

subsection \<open>The random choice\<close>

text \<open>
  \<^verbatim>\<open>random.choice(seq)\<close> is \<^verbatim>\<open>seq[randbelow(len(seq))]\<close> and raises IndexError on an
  empty sequence. The generator's state is a number, and \<open>randbelow\<close> reduces it to the
  range.
\<close>

definition randbelow :: "nat \<Rightarrow> nat \<Rightarrow> nat" where
  "randbelow r n = r mod n"

definition choice :: "nat \<Rightarrow> 'a list \<Rightarrow> error + 'a" where
  "choice r seq = (if seq = [] then Inl IndexError else Inr (seq ! randbelow r (length seq)))"

subsection \<open>The subparsers\<close>

text \<open>
  The positional argument a subparser declares with \<^verbatim>\<open>add_argument\<close>; each subparser of
  this program declares at most one:
  \<^item> \<open>Query\<close>: \<^verbatim>\<open>"query", nargs="*", type=str\<close>;
  \<^item> \<open>Mobileconfig\<close>: \<^verbatim>\<open>"mobileconfig", type=argparse.FileType("rb")\<close>;
  \<^item> \<open>Identifier\<close>: \<^verbatim>\<open>"identifier", type=str\<close>;
  \<^item> \<open>Request_type\<close>: \<^verbatim>\<open>"request_type", type=str\<close>.
\<close>

datatype positional = Query | Mobileconfig | Identifier | Request_type

record subparser =
  argument :: "positional option"
  defaults_func :: builder

text \<open>
  \<^verbatim>\<open>subparsers\<close> maps a subcommand name to its parser; \<^verbatim>\<open>add_parser\<close> stores under the
  name.
\<close>

type_synonym subparsers = "(string \<times> subparser) list"

definition dev_info_subparser :: "subparsers \<Rightarrow> subparsers" where
  "dev_info_subparser parser =
     AList.update ''DeviceInformation'' \<lparr>argument = Some Query, defaults_func = Dev_info\<rparr> parser"

definition inst_prof_subparser :: "subparsers \<Rightarrow> subparsers" where
  "inst_prof_subparser parser =
     AList.update ''InstallProfile''
       \<lparr>argument = Some Mobileconfig, defaults_func = Install_profile\<rparr> parser"

definition rem_prof_subparser :: "subparsers \<Rightarrow> subparsers" where
  "rem_prof_subparser parser =
     AList.update ''RemoveProfile''
       \<lparr>argument = Some Identifier, defaults_func = Remove_profile\<rparr> parser"

definition simple_command_subparser :: "string \<Rightarrow> subparsers \<Rightarrow> subparsers" where
  "simple_command_subparser rt parser =
     AList.update rt \<lparr>argument = None, defaults_func = simple_command (Some rt)\<rparr> parser"

definition command_subparser :: "subparsers \<Rightarrow> subparsers" where
  "command_subparser parser =
     AList.update ''command''
       \<lparr>argument = Some Request_type, defaults_func = simple_command None\<rparr> parser"

text \<open>The list that \<^verbatim>\<open>main\<close> loops over to register the parameterless commands.\<close>

definition simple_names :: "string list" where
  "simple_names =
     [''ProfileList'', ''ProvisioningProfileList'', ''CertificateList'', ''SecurityInfo'',
      ''RestartDevice'', ''ShutDownDevice'', ''StopMirroring'', ''ClearRestrictionsPassword'',
      ''UserList'', ''LogOutUser'', ''PlayLostModeSound'', ''DisableLostMode'',
      ''DeviceLocation'', ''ManagedMediaList'', ''DeviceConfigured'', ''AvailableOSUpdates'',
      ''NSExtensionMappings'', ''OSUpdateStatus'', ''EnableRemoteDesktop'',
      ''DisableRemoteDesktop'', ''ActivationLockBypassCode'']"

text \<open>The subparsers as \<^verbatim>\<open>main\<close> registers them, in its order.\<close>

definition main_subparsers :: subparsers where
  "main_subparsers =
     command_subparser
       (rem_prof_subparser
         (inst_prof_subparser
           (dev_info_subparser
             (fold simple_command_subparser simple_names []))))"

subsection \<open>Parsing the command line\<close>

text \<open>
  The command line as argparse splits it: the value of \<^verbatim>\<open>-u/--uuid\<close> if the option is
  present, whether \<^verbatim>\<open>-r/--random\<close> is present, and the subcommand name with the strings
  that follow it, if a subcommand is named. The option \<^verbatim>\<open>-h/--help\<close>, which argparse adds
  itself and answers with the help and status 0 before \<^verbatim>\<open>parse_args\<close> returns, is not
  part of it.
\<close>

record cmdline =
  opt_uuid :: "string option"
  opt_random :: bool
  subcommand :: "(string \<times> string list) option"

text \<open>
  \<^verbatim>\<open>argparse.FileType("rb")\<close> opens the path for reading in binary mode; the path
  \<^verbatim>\<open>-\<close> stands for standard input. A path that cannot be opened is a parse error.
\<close>

definition FileType_rb :: "env \<Rightarrow> string \<Rightarrow> fobj option" where
  "FileType_rb e path =
     (if path = ''-'' then Some (open_rb (stdin e))
      else map_option open_rb (map_of (files e) path))"

text \<open>
  A subparser stores the strings after the subcommand name under its positional argument.
  \<open>None\<close> is a parse error (argparse prints the usage line and a message on standard
  error and exits with status 2).
\<close>

fun parse_positional :: "env \<Rightarrow> positional option \<Rightarrow> string list \<Rightarrow> args \<Rightarrow> args option" where
  "parse_positional e None ws a = (if ws = [] then Some a else None)"
| "parse_positional e (Some Query) ws a = Some (a\<lparr>query := Some ws\<rparr>)"
| "parse_positional e (Some Mobileconfig) [w] a =
     (case FileType_rb e w of None \<Rightarrow> None | Some f \<Rightarrow> Some (a\<lparr>mobileconfig := Some f\<rparr>))"
| "parse_positional e (Some Identifier) [w] a = Some (a\<lparr>identifier' := Some w\<rparr>)"
| "parse_positional e (Some Request_type) [w] a = Some (a\<lparr>request_type := Some w\<rparr>)"
| "parse_positional e (Some _) ws a = None"

text \<open>
  \<^verbatim>\<open>parser.parse_args()\<close>: \<open>dflt\<close> is the default of \<^verbatim>\<open>--uuid\<close>, computed when the
  option is declared. The subparser found under the subcommand name fills in its
  positional argument and its \<^verbatim>\<open>func\<close> default.
\<close>

definition parse_args :: "env \<Rightarrow> subparsers \<Rightarrow> string \<Rightarrow> cmdline \<Rightarrow> args option" where
  "parse_args e subs dflt cl =
     (let a = \<lparr>uuid = (case opt_uuid cl of None \<Rightarrow> dflt | Some u \<Rightarrow> u),
                random = opt_random cl, func = None, request_type = None, query = None,
                mobileconfig = None, identifier' = None\<rparr>
      in case subcommand cl of
           None \<Rightarrow> Some a
         | Some (name, ws) \<Rightarrow>
             (case map_of subs name of
                None \<Rightarrow> None
              | Some sp \<Rightarrow>
                  (case parse_positional e (argument sp) ws a of
                     None \<Rightarrow> None
                   | Some a' \<Rightarrow> Some (a'\<lparr>func := Some (defaults_func sp)\<rparr>))))"

subsection \<open>main\<close>

text \<open>
  How a run ends:
  \<^item> \<open>Argparse_error\<close>: \<^verbatim>\<open>parse_args\<close> rejected the command line (status 2);
  \<^item> \<open>Help_exit n\<close>: \<^verbatim>\<open>parser.print_help()\<close> followed by \<^verbatim>\<open>sys.exit(n)\<close>;
  \<^item> \<open>Raised e\<close>: an exception nobody catches (traceback, status 1);
  \<^item> \<open>Dumped c\<close>: \<^verbatim>\<open>plistlib.dump(c, sys.stdout.buffer)\<close> is called with the envelope
    \<open>c\<close> and \<^verbatim>\<open>main\<close> returns (status 0). The serialisation itself belongs to the
    standard library and is not modelled.
\<close>

datatype outcome = Argparse_error | Help_exit nat | Raised error | Dumped plist



fun plist_output :: "outcome \<Rightarrow> plist option" where
  "plist_output (Dumped c) = Some c"
| "plist_output _ = None"

definition read_only_commands :: "string list" where
  "read_only_commands =
     [''SecurityInfo'', ''CertificateList'', ''ProfileList'', ''ProvisioningProfileList'']"

text \<open>
  The \<^verbatim>\<open>if args.random:\<close> block: the namespace with \<^verbatim>\<open>func\<close> replaced by a simple
  command for the name drawn.
\<close>

definition select_random :: "env \<Rightarrow> args \<Rightarrow> error + args" where
  "select_random e a =
     (if random a then
        (case choice (rand e) read_only_commands of
           Inl err \<Rightarrow> Inl err
         | Inr rt \<Rightarrow> Inr (a\<lparr>func := Some (simple_command (Some rt))\<rparr>))
      else Inr a)"

text \<open>The envelope and the call of \<^verbatim>\<open>plistlib.dump\<close>.\<close>

definition emit :: "env \<Rightarrow> args \<Rightarrow> outcome" where
  "emit e a =
     (case func a of
        None \<Rightarrow> Raised (AttributeError ''func'')
      | Some f \<Rightarrow>
          (case call e f a of
             Inl err \<Rightarrow> Raised err
           | Inr body \<Rightarrow> Dumped (PDict [(''CommandUUID'', PStr (uuid a)), (''Command'', body)])))"

text \<open>\<^verbatim>\<open>main\<close> from the line after \<^verbatim>\<open>parse_args()\<close> on.\<close>

definition main_parsed :: "env \<Rightarrow> args \<Rightarrow> outcome" where
  "main_parsed e a =
     (if (func a = None \<and> \<not> random a) \<or> (func a \<noteq> None \<and> random a) then Help_exit 2
      else case select_random e a of
             Inl err \<Rightarrow> Raised err
           | Inr a' \<Rightarrow> emit e a')"

definition main :: "env \<Rightarrow> cmdline \<Rightarrow> outcome" where
  "main e cl =
     (case parse_args e main_subparsers (uuid_str (uuid4 (urandom e))) cl of
        None \<Rightarrow> Argparse_error
      | Some a \<Rightarrow> main_parsed e a)"

subsection \<open>Subcommands without an argument\<close>

text \<open>The names under which a parser without a positional argument is registered.\<close>

definition no_argument :: "string \<times> subparser \<Rightarrow> bool" where
  "no_argument p = (argument (snd p) = None)"

definition simple_subcommands :: "subparsers \<Rightarrow> string list" where
  "simple_subcommands subs = map fst (filter no_argument subs)"

section \<open>Properties\<close>

subsection \<open>Auxiliary facts\<close>

lemma map_of_simple_command_subparser:
  "map_of (simple_command_subparser rt parser) n =
     (if n = rt then Some \<lparr>argument = None, defaults_func = simple_command (Some rt)\<rparr>
      else map_of parser n)"
  by (simp add: simple_command_subparser_def update_conv')

lemma map_of_fold_simple:
  "map_of (fold simple_command_subparser ns parser) n =
     (if n \<in> set ns then Some \<lparr>argument = None, defaults_func = simple_command (Some n)\<rparr>
      else map_of parser n)"
  by (induction ns arbitrary: parser) (auto simp: map_of_simple_command_subparser)

lemma map_of_main_subparsers:
  "map_of main_subparsers n =
     (if n = ''command'' then Some \<lparr>argument = Some Request_type, defaults_func = simple_command None\<rparr>
      else if n = ''RemoveProfile'' then Some \<lparr>argument = Some Identifier, defaults_func = Remove_profile\<rparr>
      else if n = ''InstallProfile'' then Some \<lparr>argument = Some Mobileconfig, defaults_func = Install_profile\<rparr>
      else if n = ''DeviceInformation'' then Some \<lparr>argument = Some Query, defaults_func = Dev_info\<rparr>
      else if n \<in> set simple_names then Some \<lparr>argument = None, defaults_func = simple_command (Some n)\<rparr>
      else None)"
  by (simp add: main_subparsers_def command_subparser_def rem_prof_subparser_def
      inst_prof_subparser_def dev_info_subparser_def update_conv' map_of_fold_simple)

lemma simple_names_not_special:
  "n \<in> set simple_names \<Longrightarrow>
     n \<noteq> ''command'' \<and> n \<noteq> ''RemoveProfile'' \<and> n \<noteq> ''InstallProfile'' \<and> n \<noteq> ''DeviceInformation''"
  by (auto simp: simple_names_def)

lemma lookup_simple:
  "n \<in> set simple_names \<Longrightarrow>
     map_of main_subparsers n = Some \<lparr>argument = None, defaults_func = simple_command (Some n)\<rparr>"
  using simple_names_not_special [of n] by (simp add: map_of_main_subparsers)

lemma parse_simple:
  "n \<in> set simple_names \<Longrightarrow>
     parse_args e main_subparsers d \<lparr>opt_uuid = u, opt_random = r, subcommand = Some (n, [])\<rparr> =
       Some \<lparr>uuid = (case u of None \<Rightarrow> d | Some s \<Rightarrow> s), random = r,
             func = Some (simple_command (Some n)), request_type = None, query = None,
             mobileconfig = None, identifier' = None\<rparr>"
  by (simp add: parse_args_def lookup_simple)

lemma parse_command:
  "parse_args e main_subparsers d \<lparr>opt_uuid = u, opt_random = r, subcommand = Some (''command'', [n])\<rparr> =
       Some \<lparr>uuid = (case u of None \<Rightarrow> d | Some s \<Rightarrow> s), random = r,
             func = Some (simple_command None), request_type = Some n, query = None,
             mobileconfig = None, identifier' = None\<rparr>"
  by (simp add: parse_args_def map_of_main_subparsers)

lemma parse_dev_info:
  "parse_args e main_subparsers d \<lparr>opt_uuid = u, opt_random = r, subcommand = Some (''DeviceInformation'', qs)\<rparr> =
       Some \<lparr>uuid = (case u of None \<Rightarrow> d | Some s \<Rightarrow> s), random = r,
             func = Some Dev_info, request_type = None, query = Some qs,
             mobileconfig = None, identifier' = None\<rparr>"
  by (simp add: parse_args_def map_of_main_subparsers)

lemma parse_remove_profile:
  "parse_args e main_subparsers d \<lparr>opt_uuid = u, opt_random = r, subcommand = Some (''RemoveProfile'', [i])\<rparr> =
       Some \<lparr>uuid = (case u of None \<Rightarrow> d | Some s \<Rightarrow> s), random = r,
             func = Some Remove_profile, request_type = None, query = None,
             mobileconfig = None, identifier' = Some i\<rparr>"
  by (simp add: parse_args_def map_of_main_subparsers)

lemma parse_install_profile:
  "FileType_rb e p = Some f \<Longrightarrow>
   parse_args e main_subparsers d \<lparr>opt_uuid = u, opt_random = r, subcommand = Some (''InstallProfile'', [p])\<rparr> =
       Some \<lparr>uuid = (case u of None \<Rightarrow> d | Some s \<Rightarrow> s), random = r,
             func = Some Install_profile, request_type = None, query = None,
             mobileconfig = Some f, identifier' = None\<rparr>"
  by (simp add: parse_args_def map_of_main_subparsers)

lemma parse_none:
  "parse_args e subs d \<lparr>opt_uuid = u, opt_random = r, subcommand = None\<rparr> =
       Some \<lparr>uuid = (case u of None \<Rightarrow> d | Some s \<Rightarrow> s), random = r,
             func = None, request_type = None, query = None,
             mobileconfig = None, identifier' = None\<rparr>"
  by (simp add: parse_args_def)

lemma parse_positional_keeps:
  "parse_positional e p ws a = Some a' \<Longrightarrow>
     uuid a' = uuid a \<and> random a' = random a \<and> func a' = func a"
  by (induction e p ws a rule: parse_positional.induct)
     (auto split: if_splits option.splits)

lemma parse_args_uuid:
  "parse_args e subs d cl = Some a \<Longrightarrow> uuid a = (case opt_uuid cl of None \<Rightarrow> d | Some s \<Rightarrow> s)"
  by (auto simp: parse_args_def Let_def split: option.splits prod.splits dest!: parse_positional_keeps)

lemma select_random_uuid: "select_random e a = Inr a' \<Longrightarrow> uuid a' = uuid a"
  by (auto simp: select_random_def split: if_splits sum.splits)

lemma emit_Dumped:
  "emit e a = Dumped c \<Longrightarrow>
     \<exists>f body. func a = Some f \<and> call e f a = Inr body \<and>
       c = PDict [(''CommandUUID'', PStr (uuid a)), (''Command'', body)]"
  by (auto simp: emit_def split: option.splits sum.splits)

lemma main_parsed_Dumped:
  "main_parsed e a = Dumped c \<Longrightarrow>
     \<exists>a' f body. select_random e a = Inr a' \<and> func a' = Some f \<and> call e f a' = Inr body \<and>
       c = PDict [(''CommandUUID'', PStr (uuid a)), (''Command'', body)]"
  by (auto simp: main_parsed_def split: if_splits sum.splits dest!: emit_Dumped select_random_uuid)

lemma main_Dumped_uuid:
  "main e cl = Dumped c \<Longrightarrow>
     getitem c ''CommandUUID'' =
       Some (PStr (case opt_uuid cl of None \<Rightarrow> uuid_str (uuid4 (urandom e)) | Some s \<Rightarrow> s))"
  by (auto simp: main_def split: option.splits dest!: main_parsed_Dumped parse_args_uuid)

lemma is_hex_hexdigit: "is_hex (hexdigit n)"
proof -
  have "hexdigit n \<in> set ''0123456789abcdef''"
    unfolding hexdigit_def by (rule nth_mem) simp
  then show ?thesis
    by (auto simp: is_hex_def)
qed

lemma hex_all_hex: "list_all is_hex (hex n)"
  by (induction n rule: hex.induct) (subst hex.simps, simp add: is_hex_hexdigit)

lemma hex_length: "n < 16 ^ Suc k \<Longrightarrow> length (hex n) \<le> Suc k"
proof (induction k arbitrary: n)
  case 0
  then show ?case by (subst hex.simps) simp
next
  case (Suc k)
  show ?case
  proof (cases "n < 16")
    case True
    then show ?thesis by (subst hex.simps) simp
  next
    case False
    from Suc.prems have "n div 16 < 16 ^ Suc k"
      by (simp add: less_mult_imp_div_less mult.commute)
    then have "length (hex (n div 16)) \<le> Suc k" by (rule Suc.IH)
    with False show ?thesis by (subst hex.simps) simp
  qed
qed

lemma format_032x_length: "n < 2 ^ 128 \<Longrightarrow> length (format_032x n) = 32"
proof -
  assume "n < 2 ^ 128"
  then have "n < 16 ^ Suc 31" by simp
  then have "length (hex n) \<le> Suc 31" by (rule hex_length)
  then show ?thesis by (simp add: format_032x_def)
qed

lemma is_hex_zero: "is_hex (CHR ''0'')"
  by (simp add: is_hex_def)

lemma format_032x_all_hex: "list_all is_hex (format_032x n)"
  using hex_all_hex [of n] by (auto simp: format_032x_def list_all_iff is_hex_zero)

lemma is_uuid_groups:
  assumes "length h = 32" and "list_all is_hex h"
  shows "is_uuid (take 8 h @ ''-'' @ take 4 (drop 8 h) @ ''-'' @ take 4 (drop 12 h) @ ''-'' @
         take 4 (drop 16 h) @ ''-'' @ drop 20 h)"
  using assms unfolding is_uuid_def
  by (auto simp: nth_append list_all_iff dest: in_set_takeD in_set_dropD)

lemma is_uuid_uuid_str: "is_uuid (uuid_str u)"
proof -
  have "unat u < 2 ^ 128" using unsigned_less [of u] by simp
  then have "length (format_032x (unat u)) = 32" by (rule format_032x_length)
  then show ?thesis
    unfolding uuid_str_def Let_def by (rule is_uuid_groups) (rule format_032x_all_hex)
qed

lemma main_parsed_explicit:
  "func a = Some f \<Longrightarrow> \<not> random a \<Longrightarrow>
     main_parsed e a =
       (case call e f a of
          Inl err \<Rightarrow> Raised err
        | Inr body \<Rightarrow> Dumped (PDict [(''CommandUUID'', PStr (uuid a)), (''Command'', body)]))"
  by (simp add: main_parsed_def select_random_def emit_def)

lemma choice_mem: "seq \<noteq> [] \<Longrightarrow> \<exists>x\<in>set seq. choice r seq = Inr x"
  by (simp add: choice_def randbelow_def)

lemma main_parsed_random:
  assumes "func a = None" and "random a"
  shows "\<exists>rt\<in>set read_only_commands.
           main_parsed e a =
             Dumped (PDict [(''CommandUUID'', PStr (uuid a)),
                            (''Command'', PDict [(''RequestType'', PStr rt)])])"
proof -
  have "read_only_commands \<noteq> []" by (simp add: read_only_commands_def)
  then obtain rt where rt: "rt \<in> set read_only_commands"
    and ch: "choice (rand e) read_only_commands = Inr rt"
    using choice_mem by blast
  from assms ch have "main_parsed e a =
      Dumped (PDict [(''CommandUUID'', PStr (uuid a)),
                     (''Command'', PDict [(''RequestType'', PStr rt)])])"
    by (simp add: main_parsed_def select_random_def emit_def simple_command_body_def)
  with rt show ?thesis by blast
qed

lemma simple_subcommands_main: "simple_subcommands main_subparsers = simple_names"
  by (simp add: simple_subcommands_def no_argument_def main_subparsers_def
      command_subparser_def rem_prof_subparser_def inst_prof_subparser_def
      dev_info_subparser_def simple_command_subparser_def simple_names_def)

lemma length_simple_names: "length simple_names = 21"
  by (simp add: simple_names_def)

lemma distinct_simple_names: "distinct simple_names"
  by (simp add: simple_names_def)

lemma call_simple: "call e (simple_command (Some n)) a = Inr (PDict [(''RequestType'', PStr n)])"
  by (simp add: simple_command_body_def)

lemma main_simple:
  "n \<in> set simple_names \<Longrightarrow>
     main e \<lparr>opt_uuid = u, opt_random = False, subcommand = Some (n, [])\<rparr> =
       Dumped (PDict [(''CommandUUID'',
                       PStr (case u of None \<Rightarrow> uuid_str (uuid4 (urandom e)) | Some s \<Rightarrow> s)),
                      (''Command'', PDict [(''RequestType'', PStr n)])])"
  by (simp add: main_def parse_simple main_parsed_explicit simple_command_body_def)

lemma main_command:
  "main e \<lparr>opt_uuid = u, opt_random = False, subcommand = Some (''command'', [n])\<rparr> =
       Dumped (PDict [(''CommandUUID'',
                       PStr (case u of None \<Rightarrow> uuid_str (uuid4 (urandom e)) | Some s \<Rightarrow> s)),
                      (''Command'', PDict [(''RequestType'', PStr n)])])"
  by (simp add: main_def parse_command main_parsed_explicit simple_command_body_def)

lemma main_dev_info:
  "main e \<lparr>opt_uuid = u, opt_random = False, subcommand = Some (''DeviceInformation'', qs)\<rparr> =
       Dumped (PDict [(''CommandUUID'',
                       PStr (case u of None \<Rightarrow> uuid_str (uuid4 (urandom e)) | Some s \<Rightarrow> s)),
                      (''Command'',
                       if qs = [] then PDict [(''RequestType'', PStr ''DeviceInformation'')]
                       else PDict [(''RequestType'', PStr ''DeviceInformation''),
                                   (''Queries'', PArray (map PStr qs))])])"
  by (simp add: main_def parse_dev_info main_parsed_explicit dev_info_def)

lemma main_remove_profile:
  "main e \<lparr>opt_uuid = u, opt_random = False, subcommand = Some (''RemoveProfile'', [i])\<rparr> =
       Dumped (PDict [(''CommandUUID'',
                       PStr (case u of None \<Rightarrow> uuid_str (uuid4 (urandom e)) | Some s \<Rightarrow> s)),
                      (''Command'', PDict [(''RequestType'', PStr ''RemoveProfile''),
                                          (''Identifier'', PStr i)])])"
  by (simp add: main_def parse_remove_profile main_parsed_explicit remove_profile_def)

lemma read_open_rb: "fst (read (open_rb bs)) = bs"
  by (simp add: read_def open_rb_def)

lemma install_profile_with_Data:
  "plistlib_Data e \<Longrightarrow>
     install_profile e (a\<lparr>mobileconfig := Some (open_rb bs)\<rparr>) =
       Inr (PDict [(''RequestType'', PStr ''InstallProfile''), (''Payload'', PData bs)])"
  by (simp add: install_profile_def read_open_rb)

lemma install_profile_without_Data:
  "\<not> plistlib_Data e \<Longrightarrow> install_profile e a = Inl (AttributeError ''Data'')"
  by (simp add: install_profile_def)

lemma main_install_profile:
  "plistlib_Data e \<Longrightarrow> path \<noteq> ''-'' \<Longrightarrow> map_of (files e) path = Some bs \<Longrightarrow>
   main e \<lparr>opt_uuid = u, opt_random = False, subcommand = Some (''InstallProfile'', [path])\<rparr> =
       Dumped (PDict [(''CommandUUID'',
                       PStr (case u of None \<Rightarrow> uuid_str (uuid4 (urandom e)) | Some s \<Rightarrow> s)),
                      (''Command'', PDict [(''RequestType'', PStr ''InstallProfile''),
                                          (''Payload'', PData bs)])])"
proof -
  assume d: "plistlib_Data e" and "path \<noteq> ''-''" and "map_of (files e) path = Some bs"
  then have "FileType_rb e path = Some (open_rb bs)"
    by (simp add: FileType_rb_def)
  with d show ?thesis
    by (simp add: main_def parse_install_profile main_parsed_explicit install_profile_def
        read_open_rb)
qed

lemma main_install_profile_without_Data:
  "\<not> plistlib_Data e \<Longrightarrow> path \<noteq> ''-'' \<Longrightarrow> map_of (files e) path = Some bs \<Longrightarrow>
   main e \<lparr>opt_uuid = u, opt_random = False, subcommand = Some (''InstallProfile'', [path])\<rparr> =
     Raised (AttributeError ''Data'')"
proof -
  assume d: "\<not> plistlib_Data e" and "path \<noteq> ''-''" and "map_of (files e) path = Some bs"
  then have "FileType_rb e path = Some (open_rb bs)"
    by (simp add: FileType_rb_def)
  with d show ?thesis
    by (simp add: main_def parse_install_profile main_parsed_explicit install_profile_def)
qed




lemma ProfileList_simple: "''ProfileList'' \<in> set simple_names"
  by (simp add: simple_names_def)

lemma RestartDevice_simple: "''RestartDevice'' \<in> set simple_names"
  by (simp add: simple_names_def)

subsection \<open>The claims\<close>

text \<open>
  C1, the claim as stated, fails: with \<^verbatim>\<open>-u not-a-uuid ProfileList\<close> the envelope carries
  \<^verbatim>\<open>not-a-uuid\<close>, which is not a UUID.
\<close>

theorem command_uuid_not_validated:
  "main \<lparr>urandom = 0, rand = 0, files = [], stdin = [], plistlib_Data = False\<rparr>
     \<lparr>opt_uuid = Some ''not-a-uuid'', opt_random = False, subcommand = Some (''ProfileList'', [])\<rparr> =
   Dumped (PDict [(''CommandUUID'', PStr ''not-a-uuid''),
                  (''Command'', PDict [(''RequestType'', PStr ''ProfileList'')])]) \<and>
   \<not> is_uuid ''not-a-uuid''"
  by (simp add: main_simple ProfileList_simple is_uuid_def)

text \<open>
  C1 (as amended). The claim that \<^verbatim>\<open>CommandUUID\<close> is always a syntactically valid UUID
  fails for a supplied value: \<^verbatim>\<open>-u\<close> is declared with \<^verbatim>\<open>type=str\<close> and nothing checks
  it. What holds: in every run that reaches \<^verbatim>\<open>plistlib.dump\<close>, the envelope's
  \<^verbatim>\<open>CommandUUID\<close> is a string, and it is a syntactically valid UUID exactly when
  \<^verbatim>\<open>-u\<close> was absent (the freshly generated UUID is always valid) or the supplied value
  is itself a valid UUID.
\<close>

theorem command_uuid_valid_iff:
  "main e cl = Dumped c \<Longrightarrow>
     \<exists>s. getitem c ''CommandUUID'' = Some (PStr s) \<and>
         (is_uuid s \<longleftrightarrow> (case opt_uuid cl of None \<Rightarrow> True | Some u \<Rightarrow> is_uuid u))"
  using main_Dumped_uuid [of e cl c] by (auto simp: is_uuid_uuid_str split: option.splits)

text \<open>The theorem at a concrete input.\<close>

theorem command_uuid_valid_iff_witness:
  "main \<lparr>urandom = 0, rand = 0, files = [], stdin = [], plistlib_Data = False\<rparr>
     \<lparr>opt_uuid = None, opt_random = False, subcommand = Some (''RestartDevice'', [])\<rparr> =
   Dumped (PDict [(''CommandUUID'', PStr (uuid_str (uuid4 0))),
                  (''Command'', PDict [(''RequestType'', PStr ''RestartDevice'')])]) \<and>
   is_uuid (uuid_str (uuid4 0))"
proof -
  have run: "main \<lparr>urandom = 0, rand = 0, files = [], stdin = [], plistlib_Data = False\<rparr>
     \<lparr>opt_uuid = None, opt_random = False, subcommand = Some (''RestartDevice'', [])\<rparr> =
   Dumped (PDict [(''CommandUUID'', PStr (uuid_str (uuid4 0))),
                  (''Command'', PDict [(''RequestType'', PStr ''RestartDevice'')])])"
    by (simp add: main_simple RestartDevice_simple)
  from command_uuid_valid_iff [OF run] run show ?thesis by simp
qed




text \<open>
  C3. For every request-type name the body of a parameterless command is exactly
  \<^verbatim>\<open>{RequestType: name}\<close>: for the closure over a fixed name, for the generic closure
  given \<^verbatim>\<open>args.request_type = name\<close>, and end to end through \<^verbatim>\<open>main\<close>, for a name
  of the fixed list as the subcommand and for any string at all after \<^verbatim>\<open>command\<close>.
\<close>

theorem simple_command_request_type:
  "snd (simple_command_body (Some name) a) = PDict [(''RequestType'', PStr name)] \<and>
   snd (simple_command_body None (a\<lparr>request_type := Some name\<rparr>)) =
     PDict [(''RequestType'', PStr name)] \<and>
   (name \<in> set simple_names \<longrightarrow>
      (\<exists>c. main e \<lparr>opt_uuid = u, opt_random = False, subcommand = Some (name, [])\<rparr> = Dumped c \<and>
           getitem c ''Command'' = Some (PDict [(''RequestType'', PStr name)]))) \<and>
   (\<exists>c. main e \<lparr>opt_uuid = u, opt_random = False, subcommand = Some (''command'', [name])\<rparr> =
          Dumped c \<and>
        getitem c ''Command'' = Some (PDict [(''RequestType'', PStr name)]))"
  by (simp add: simple_command_body_def main_simple main_command)

text \<open>The theorem at a concrete input.\<close>

theorem simple_command_request_type_witness:
  "''RestartDevice'' \<in> set simple_names \<and>
   (\<exists>c. main \<lparr>urandom = 0, rand = 0, files = [], stdin = [], plistlib_Data = False\<rparr>
          \<lparr>opt_uuid = Some ''u'', opt_random = False, subcommand = Some (''RestartDevice'', [])\<rparr> =
          Dumped c \<and>
        getitem c ''Command'' = Some (PDict [(''RequestType'', PStr ''RestartDevice'')]))"
  using simple_command_request_type [where name = "''RestartDevice''"
      and e = "\<lparr>urandom = 0, rand = 0, files = [], stdin = [], plistlib_Data = False\<rparr>" and u = "Some ''u''"
      and a = "\<lparr>uuid = ''u'', random = False, func = None,
      request_type = None, query = None, mobileconfig = None, identifier' = None\<rparr>"]
  by (simp add: RestartDevice_simple)

text \<open>
  C4. \<^verbatim>\<open>DeviceInformation\<close> with no query strings gives a body with the single key
  \<^verbatim>\<open>RequestType\<close> (no \<^verbatim>\<open>Queries\<close>); with a non-empty list of queries the body is
  \<^verbatim>\<open>{RequestType: "DeviceInformation", Queries: queries}\<close> in the given order. Both
  for the builder and end to end through \<^verbatim>\<open>main\<close>.
\<close>

theorem dev_info_queries:
  "dev_info (a\<lparr>query := Some []\<rparr>) = Inr (PDict [(''RequestType'', PStr ''DeviceInformation'')]) \<and>
   (qs \<noteq> [] \<longrightarrow>
      dev_info (a\<lparr>query := Some qs\<rparr>) =
        Inr (PDict [(''RequestType'', PStr ''DeviceInformation''),
                    (''Queries'', PArray (map PStr qs))])) \<and>
   (\<exists>c. main e \<lparr>opt_uuid = u, opt_random = False, subcommand = Some (''DeviceInformation'', [])\<rparr> =
          Dumped c \<and>
        getitem c ''Command'' = Some (PDict [(''RequestType'', PStr ''DeviceInformation'')])) \<and>
   (qs \<noteq> [] \<longrightarrow>
      (\<exists>c. main e \<lparr>opt_uuid = u, opt_random = False,
                    subcommand = Some (''DeviceInformation'', qs)\<rparr> = Dumped c \<and>
           getitem c ''Command'' =
             Some (PDict [(''RequestType'', PStr ''DeviceInformation''),
                          (''Queries'', PArray (map PStr qs))])))"
  by (simp add: dev_info_def main_dev_info)

text \<open>The theorem at a concrete input.\<close>

theorem dev_info_queries_witness:
  "[''Model'', ''OSVersion''] \<noteq> [] \<and>
   dev_info \<lparr>uuid = ''u'', random = False, func = Some Dev_info, request_type = None,
             query = Some [''Model'', ''OSVersion''], mobileconfig = None, identifier' = None\<rparr> =
     Inr (PDict [(''RequestType'', PStr ''DeviceInformation''),
                 (''Queries'', PArray [PStr ''Model'', PStr ''OSVersion''])])"
  using dev_info_queries [where a = "\<lparr>uuid = ''u'', random = False, func = Some Dev_info,
      request_type = None, query = None, mobileconfig = None, identifier' = None\<rparr>"
      and qs = "[''Model'', ''OSVersion'']"
      and e = "\<lparr>urandom = 0, rand = 0, files = [], stdin = [], plistlib_Data = False\<rparr>" and u = "Some ''u''"]
  by simp

text \<open>
  C5. With \<^verbatim>\<open>random\<close> set and no command, whatever the state of the random generator,
  the emitted command is \<^verbatim>\<open>{RequestType: rt}\<close> for some \<open>rt\<close> among SecurityInfo,
  CertificateList, ProfileList and ProvisioningProfileList.
\<close>

theorem random_read_only:
  "random a \<and> func a = None \<Longrightarrow>
     \<exists>rt\<in>{''SecurityInfo'', ''CertificateList'', ''ProfileList'', ''ProvisioningProfileList''}.
        main_parsed e a =
          Dumped (PDict [(''CommandUUID'', PStr (uuid a)),
                         (''Command'', PDict [(''RequestType'', PStr rt)])])"
  using main_parsed_random [of a e] by (simp add: read_only_commands_def)

text \<open>The theorem at a concrete input.\<close>

theorem random_read_only_witness:
  "main_parsed \<lparr>urandom = 0, rand = 6, files = [], stdin = [], plistlib_Data = False\<rparr>
     \<lparr>uuid = ''u'', random = True, func = None,
      request_type = None, query = None, mobileconfig = None, identifier' = None\<rparr> =
   Dumped (PDict [(''CommandUUID'', PStr ''u''),
                  (''Command'', PDict [(''RequestType'', PStr ''ProfileList'')])]) \<and>
   ''ProfileList'' \<in> {''SecurityInfo'', ''CertificateList'', ''ProfileList'', ''ProvisioningProfileList''}"
  using random_read_only [of "\<lparr>uuid = ''u'', random = True, func = None,
      request_type = None, query = None, mobileconfig = None, identifier' = None\<rparr>"
      "\<lparr>urandom = 0, rand = 6, files = [], stdin = [], plistlib_Data = False\<rparr>"]
  by (simp add: main_parsed_def select_random_def choice_def randbelow_def
      read_only_commands_def emit_def simple_command_body_def)

text \<open>
  C6, the claim as stated, fails: the number of subcommands registered without an argument
  is not 20.
\<close>

theorem not_twenty_simple_subcommands:
  "length (simple_subcommands main_subparsers) \<noteq> 20"
  by (simp add: simple_subcommands_main length_simple_names)

text \<open>
  C6 (as amended). The subcommands registered without an argument are exactly the names of
  the list in \<^verbatim>\<open>main\<close>, which has 21 distinct entries (not 20); each is registered under
  its own name with the closure that builds \<^verbatim>\<open>{RequestType: name}\<close>.
\<close>

theorem twenty_one_simple_subcommands:
  "simple_subcommands main_subparsers = simple_names \<and>
   length simple_names = 21 \<and> distinct simple_names \<and>
   (\<forall>n\<in>set simple_names.
      map_of main_subparsers n =
        Some \<lparr>argument = None, defaults_func = simple_command (Some n)\<rparr> \<and>
      call e (simple_command (Some n)) a = Inr (PDict [(''RequestType'', PStr n)]))"
  by (simp add: simple_subcommands_main length_simple_names distinct_simple_names
      lookup_simple simple_command_body_def)

text \<open>The theorem at a concrete input.\<close>

theorem twenty_one_simple_subcommands_witness:
  "''ProfileList'' \<in> set simple_names \<and>
   map_of main_subparsers ''ProfileList'' =
     Some \<lparr>argument = None, defaults_func = simple_command (Some ''ProfileList'')\<rparr>"
  using twenty_one_simple_subcommands [where a = "\<lparr>uuid = ''u'', random = False, func = None,
      request_type = None, query = None, mobileconfig = None, identifier' = None\<rparr>"] ProfileList_simple by blast

text \<open>
  C7. \<^verbatim>\<open>InstallProfile\<close> given a readable file should give a body whose \<^verbatim>\<open>Payload\<close> is
  the file's bytes. The code does so only where \<^verbatim>\<open>plistlib.Data\<close> exists (see
  \<open>install_profile_with_Data\<close> and \<open>main_install_profile\<close>). On an interpreter without it
  (Python 3.9 and later) the code fails: for the readable file \<^verbatim>\<open>a.mobileconfig\<close> with the
  bytes 1, 2, 3, \<^verbatim>\<open>install_profile\<close> raises AttributeError, no body is built and nothing
  is written.
\<close>

theorem install_profile_raises_without_Data:
  "install_profile \<lparr>urandom = 0, rand = 0, files = [(''a.mobileconfig'', [1, 2, 3])], stdin = [], plistlib_Data = False\<rparr>
     \<lparr>uuid = ''u'', random = False, func = Some Install_profile, request_type = None,
      query = None, mobileconfig = Some (open_rb [1, 2, 3]), identifier' = None\<rparr> =
     Inl (AttributeError ''Data'') \<and>
   main \<lparr>urandom = 0, rand = 0, files = [(''a.mobileconfig'', [1, 2, 3])], stdin = [], plistlib_Data = False\<rparr>
     \<lparr>opt_uuid = Some ''u'', opt_random = False,
      subcommand = Some (''InstallProfile'', [''a.mobileconfig''])\<rparr> =
     Raised (AttributeError ''Data'') \<and>
   plist_output (main \<lparr>urandom = 0, rand = 0, files = [(''a.mobileconfig'', [1, 2, 3])], stdin = [], plistlib_Data = False\<rparr>
     \<lparr>opt_uuid = Some ''u'', opt_random = False,
      subcommand = Some (''InstallProfile'', [''a.mobileconfig''])\<rparr>) = None"
  by (simp add: install_profile_without_Data main_install_profile_without_Data)



text \<open>
  C9. For every identifier string, \<^verbatim>\<open>RemoveProfile\<close> gives exactly
  \<^verbatim>\<open>{RequestType: "RemoveProfile", Identifier: identifier}\<close>, for the builder and end to
  end through \<^verbatim>\<open>main\<close>; no identifier is rejected.
\<close>

theorem remove_profile_identifier:
  "remove_profile (a\<lparr>identifier' := Some i\<rparr>) =
     Inr (PDict [(''RequestType'', PStr ''RemoveProfile''), (''Identifier'', PStr i)]) \<and>
   (\<exists>c. main e \<lparr>opt_uuid = u, opt_random = False, subcommand = Some (''RemoveProfile'', [i])\<rparr> =
          Dumped c \<and>
        getitem c ''Command'' =
          Some (PDict [(''RequestType'', PStr ''RemoveProfile''), (''Identifier'', PStr i)]))"
  by (simp add: remove_profile_def main_remove_profile)

text \<open>The theorem at a concrete input.\<close>

theorem remove_profile_identifier_witness:
  "remove_profile \<lparr>uuid = ''u'', random = False, func = Some Remove_profile, request_type = None,
             query = None, mobileconfig = None, identifier' = Some ''com.example.profile''\<rparr> =
     Inr (PDict [(''RequestType'', PStr ''RemoveProfile''),
                 (''Identifier'', PStr ''com.example.profile'')])"
  using remove_profile_identifier [where a = "\<lparr>uuid = ''u'', random = False,
      func = Some Remove_profile,
      request_type = None, query = None, mobileconfig = None, identifier' = None\<rparr>"
      and i = "''com.example.profile''"
      and e = "\<lparr>urandom = 0, rand = 0, files = [], stdin = [], plistlib_Data = False\<rparr>" and u = "Some ''u''"]
  by simp

text \<open>
  C10. In every run that reaches \<^verbatim>\<open>plistlib.dump\<close>, the envelope is a dict with the
  keys \<^verbatim>\<open>CommandUUID\<close> and \<^verbatim>\<open>Command\<close> and no others, and the value under
  \<^verbatim>\<open>Command\<close> is what the selected builder returned.
\<close>

theorem envelope_two_keys:
  "main_parsed e a = Dumped c \<Longrightarrow>
     \<exists>a' f body. select_random e a = Inr a' \<and> func a' = Some f \<and> call e f a' = Inr body \<and>
       c = PDict [(''CommandUUID'', PStr (uuid a)), (''Command'', body)] \<and>
       keys c = [''CommandUUID'', ''Command'']"
proof -
  assume "main_parsed e a = Dumped c"
  then obtain a' f body where "select_random e a = Inr a'" "func a' = Some f"
    "call e f a' = Inr body" "c = PDict [(''CommandUUID'', PStr (uuid a)), (''Command'', body)]"
    using main_parsed_Dumped by blast
  then show ?thesis by simp
qed

text \<open>The theorem at a concrete input.\<close>

theorem envelope_two_keys_witness:
  "main_parsed \<lparr>urandom = 0, rand = 0, files = [], stdin = [], plistlib_Data = False\<rparr>
     \<lparr>uuid = ''u'', random = False, func = Some Remove_profile,
      request_type = None, query = None, mobileconfig = None, identifier' = Some ''com.example.profile''\<rparr> =
   Dumped (PDict [(''CommandUUID'', PStr ''u''),
                  (''Command'', PDict [(''RequestType'', PStr ''RemoveProfile''),
                                      (''Identifier'', PStr ''com.example.profile'')])]) \<and>
   keys (PDict [(''CommandUUID'', PStr ''u''),
                  (''Command'', PDict [(''RequestType'', PStr ''RemoveProfile''),
                                      (''Identifier'', PStr ''com.example.profile'')])]) =
     [''CommandUUID'', ''Command'']"
proof -
  have run: "main_parsed \<lparr>urandom = 0, rand = 0, files = [], stdin = [], plistlib_Data = False\<rparr>
     \<lparr>uuid = ''u'', random = False, func = Some Remove_profile,
      request_type = None, query = None, mobileconfig = None, identifier' = Some ''com.example.profile''\<rparr> =
   Dumped (PDict [(''CommandUUID'', PStr ''u''),
                  (''Command'', PDict [(''RequestType'', PStr ''RemoveProfile''),
                                      (''Identifier'', PStr ''com.example.profile'')])])"
    by (simp add: main_parsed_def select_random_def emit_def remove_profile_def)
  from envelope_two_keys [OF run] run show ?thesis by auto
qed

end
